theory Spec2Isabelle
  imports Main "HOL-Library.Word"
begin

section \<open>The native interface of class glucp\_JPGlucose\<close>

text \<open>
  The repository's source is the generated header \<^verbatim>\<open>glucp_JPGlucose.h\<close>: five
  prototypes, each under a comment block giving the class, the Java method and the
  method's type descriptor. The header is data, so it is embedded as data: one record
  per prototype, in the order of the file, and functions that read the records.
\<close>

subsection \<open>Types that occur in a prototype\<close>

text \<open>
  The C types a generated prototype can name. \<^verbatim>\<open>JNIEnv *\<close> is written
  \<open>JNIEnv_ptr\<close>. The header uses \<open>JNIEnv_ptr\<close>, \<open>jclass\<close>, \<open>jlong\<close>, \<open>jint\<close>,
  \<open>jboolean\<close> and \<open>jintArray\<close>; the others are the remaining types such a header
  may use, and are there so that "is a class reference, not an object reference" says
  something.
\<close>

datatype jni_type =
    JNIEnv_ptr
  | jclass
  | jobject
  | jstring
  | jboolean
  | jbyte
  | jchar
  | jshort
  | jint
  | jlong
  | jfloat
  | jdouble
  | jintArray
  | jlongArray
  | jobjectArray
  | c_void

text \<open>
  One prototype with its comment block:
  \<^verbatim>\<open>
  /*
   * Class:     glucp_JPGlucose
   * Method:    gadd
   * Signature: (J[I)Z
   */
  JNIEXPORT jboolean JNICALL Java_glucp_JPGlucose_gadd
    (JNIEnv *, jclass, jlong, jintArray);
  \<close>
\<close>

record native_decl =
  jni_class :: string
  jni_method :: string
  jni_signature :: string
  return_type :: jni_type
  symbol :: string
  params :: "jni_type list"

definition Java_glucp_JPGlucose_ginit :: native_decl where
  "Java_glucp_JPGlucose_ginit =
     \<lparr> jni_class = ''glucp_JPGlucose'', jni_method = ''ginit'', jni_signature = ''()J'',
       return_type = jlong, symbol = ''Java_glucp_JPGlucose_ginit'',
       params = [JNIEnv_ptr, jclass] \<rparr>"

definition Java_glucp_JPGlucose_gadd :: native_decl where
  "Java_glucp_JPGlucose_gadd =
     \<lparr> jni_class = ''glucp_JPGlucose'', jni_method = ''gadd'', jni_signature = ''(J[I)Z'',
       return_type = jboolean, symbol = ''Java_glucp_JPGlucose_gadd'',
       params = [JNIEnv_ptr, jclass, jlong, jintArray] \<rparr>"

definition Java_glucp_JPGlucose_gsat :: native_decl where
  "Java_glucp_JPGlucose_gsat =
     \<lparr> jni_class = ''glucp_JPGlucose'', jni_method = ''gsat'', jni_signature = ''(J)Z'',
       return_type = jboolean, symbol = ''Java_glucp_JPGlucose_gsat'',
       params = [JNIEnv_ptr, jclass, jlong] \<rparr>"

definition Java_glucp_JPGlucose_gsat_1time :: native_decl where
  "Java_glucp_JPGlucose_gsat_1time =
     \<lparr> jni_class = ''glucp_JPGlucose'', jni_method = ''gsat_time'', jni_signature = ''(JI)Z'',
       return_type = jboolean, symbol = ''Java_glucp_JPGlucose_gsat_1time'',
       params = [JNIEnv_ptr, jclass, jlong, jint] \<rparr>"

definition Java_glucp_JPGlucose_gderef :: native_decl where
  "Java_glucp_JPGlucose_gderef =
     \<lparr> jni_class = ''glucp_JPGlucose'', jni_method = ''gderef'', jni_signature = ''(JI)I'',
       return_type = jint, symbol = ''Java_glucp_JPGlucose_gderef'',
       params = [JNIEnv_ptr, jclass, jlong, jint] \<rparr>"

text \<open>The header: its prototypes in the order they appear between the include guards.\<close>

definition glucp_JPGlucose :: "native_decl list" where
  "glucp_JPGlucose =
     [Java_glucp_JPGlucose_ginit, Java_glucp_JPGlucose_gadd, Java_glucp_JPGlucose_gsat,
      Java_glucp_JPGlucose_gsat_1time, Java_glucp_JPGlucose_gderef]"

lemmas decl_defs =
  Java_glucp_JPGlucose_ginit_def Java_glucp_JPGlucose_gadd_def Java_glucp_JPGlucose_gsat_def
  Java_glucp_JPGlucose_gsat_1time_def Java_glucp_JPGlucose_gderef_def

subsection \<open>Reading a prototype\<close>

text \<open>
  Every native method receives two parameters from the runtime before its own: the
  environment pointer, and the class (a static method) or the receiver object (an
  instance method). They are the call context; what follows them are the arguments of
  the Java method.
\<close>

definition call_context :: "native_decl \<Rightarrow> jni_type list" where
  "call_context d = take 2 (params d)"

definition arguments :: "native_decl \<Rightarrow> jni_type list" where
  "arguments d = drop 2 (params d)"

text \<open>A binding is static when its second context parameter is the class.\<close>

definition is_static :: "native_decl \<Rightarrow> bool" where
  "is_static d = (call_context d = [JNIEnv_ptr, jclass])"

definition is_instance :: "native_decl \<Rightarrow> bool" where
  "is_instance d = (call_context d = [JNIEnv_ptr, jobject])"

text \<open>
  The descriptor letter of a type, as the \<^verbatim>\<open>Signature:\<close> comments write it, and the
  descriptor of a whole prototype: the arguments between parentheses, then the result.
\<close>

fun descriptor :: "jni_type \<Rightarrow> string" where
  "descriptor jboolean = ''Z''"
| "descriptor jbyte = ''B''"
| "descriptor jchar = ''C''"
| "descriptor jshort = ''S''"
| "descriptor jint = ''I''"
| "descriptor jlong = ''J''"
| "descriptor jfloat = ''F''"
| "descriptor jdouble = ''D''"
| "descriptor c_void = ''V''"
| "descriptor jintArray = ''[I''"
| "descriptor jlongArray = ''[J''"
| "descriptor jstring = ''Ljava/lang/String;''"
| "descriptor jclass = ''Ljava/lang/Class;''"
| "descriptor jobject = ''Ljava/lang/Object;''"
| "descriptor jobjectArray = ''[Ljava/lang/Object;''"
| "descriptor JNIEnv_ptr = []"

definition descriptor_of :: "native_decl \<Rightarrow> string" where
  "descriptor_of d =
     ''('' @ concat (map descriptor (arguments d)) @ '')'' @ descriptor (return_type d)"

text \<open>
  The linker name of a native method: \<^verbatim>\<open>Java_\<close>, the class, an underscore, and the
  method with every underscore of its own escaped as \<^verbatim>\<open>_1\<close> (so \<^verbatim>\<open>gsat_time\<close> is
  declared as \<^verbatim>\<open>gsat_1time\<close>).
\<close>

fun escape_name :: "string \<Rightarrow> string" where
  "escape_name [] = []"
| "escape_name (c # cs) = (if c = CHR ''_'' then ''_1'' else [c]) @ escape_name cs"

definition symbol_of :: "native_decl \<Rightarrow> string" where
  "symbol_of d = ''Java_'' @ jni_class d @ ''_'' @ escape_name (jni_method d)"

text \<open>
  Modelled from the spec: what a type carries across the boundary. The header takes its
  types from \<^verbatim>\<open>jni.h\<close>, which is not among the sources; the widths are the ones the
  specification's interface table gives: the handle is a 64-bit integer; literals, the
  time bound, the variable index and the assigned value are 32-bit signed integers; the
  status results are booleans.
\<close>

datatype carried =
    Environment
  | Reference
  | Boolean
  | Signed_integer nat
  | Unicode_unit
  | Floating nat
  | Sequence_of carried
  | Nothing

fun carries :: "jni_type \<Rightarrow> carried" where
  "carries JNIEnv_ptr = Environment"
| "carries jclass = Reference"
| "carries jobject = Reference"
| "carries jstring = Reference"
| "carries jboolean = Boolean"
| "carries jbyte = Signed_integer 8"
| "carries jchar = Unicode_unit"
| "carries jshort = Signed_integer 16"
| "carries jint = Signed_integer 32"
| "carries jlong = Signed_integer 64"
| "carries jfloat = Floating 32"
| "carries jdouble = Floating 64"
| "carries jintArray = Sequence_of (Signed_integer 32)"
| "carries jlongArray = Sequence_of (Signed_integer 64)"
| "carries jobjectArray = Sequence_of Reference"
| "carries c_void = Nothing"

section \<open>The solver behind the interface\<close>

text \<open>
  The header only declares the five functions. Their bodies, and the Glucose engine
  they drive, are in files that are not among the sources, so what the functions do is
  modelled here from the specification's description of the protocol. Each definition
  says which sentence it follows.
\<close>

type_synonym handle = "64 word"
type_synonym literal = "32 word"
type_synonym clause = "literal list"

text \<open>
  Modelled from the spec: a literal is a signed integer whose magnitude is the index of
  its variable. The engine that reads literals is missing from the sources.
\<close>

definition variable :: "literal \<Rightarrow> nat" where
  "variable l = nat \<bar>sint l\<bar>"

text \<open>
  Modelled from the spec: a literal is positive or negative and its magnitude is a
  variable index, which \<open>gderef\<close> takes as a 32-bit signed integer. So \<open>0\<close> is no
  literal, and neither is the least 32-bit integer, whose magnitude is no such index.
\<close>

definition wellformed_literal :: "literal \<Rightarrow> bool" where
  "wellformed_literal l = (0 < variable l \<and> variable l < 2 ^ 31)"

text \<open>
  Modelled from the spec: an assignment is given by the list of the variables it makes
  true. A positive literal asserts its variable true, a negative one asserts it false; a
  clause is a disjunction of literals, and an assignment satisfies a clause database
  when it makes all clauses true at once.
\<close>

definition holds :: "nat list \<Rightarrow> literal \<Rightarrow> bool" where
  "holds a l = (wellformed_literal l \<and>
      (if 0 < sint l then variable l \<in> set a else variable l \<notin> set a))"

definition satisfies :: "nat list \<Rightarrow> clause list \<Rightarrow> bool" where
  "satisfies a cs = list_all (\<lambda>c. list_ex (holds a) c) cs"

definition variables_of :: "clause list \<Rightarrow> nat list" where
  "variables_of cs = remdups (map variable (concat cs))"

text \<open>
  Modelled from the spec: the engine runs to completion over the clause database and
  says whether it is satisfiable, leaving an assignment when it is. The specification
  fixes no algorithm; the Glucose engine is missing from the sources. This one tries
  every assignment of the variables that occur, which decides satisfiability exactly
  (\<open>search_iff_satisfiable\<close> below).
\<close>

definition search :: "clause list \<Rightarrow> nat list option" where
  "search cs = find (\<lambda>a. satisfies a cs) (subseqs (variables_of cs))"

text \<open>
  Modelled from the spec: a solver instance owns a clause database and the assignment
  state that a solve fills in; instances live in a table from handles to instances.
  The native object behind a handle is missing from the sources.
\<close>

record solver_instance =
  clauses :: "clause list"
  assignment :: "nat list option"

type_synonym store = "handle \<rightharpoonup> solver_instance"

text \<open>
  Modelled from the spec: create allocates a fresh instance with an empty clause
  database and returns its handle, unconditionally. The body of \<open>ginit\<close> is missing
  from the sources. Which handle a new instance gets is the allocator's business, so
  the allocator is a parameter.
\<close>

definition ginit :: "(store \<Rightarrow> handle) \<Rightarrow> store \<Rightarrow> handle \<times> store" where
  "ginit alloc st = (alloc st, st(alloc st \<mapsto> \<lparr> clauses = [], assignment = None \<rparr>))"

text \<open>
  Modelled from the spec: add\_clause appends the clause to the instance's database and
  returns true; it returns false, and changes nothing, for a handle that names no
  instance and for a malformed clause. The result of \<open>gderef\<close> is undefined once a
  clause has been added after the last successful solve, so adding a clause clears the
  assignment state. The body of \<open>gadd\<close> is missing from the sources.
\<close>

definition gadd :: "store \<Rightarrow> handle \<Rightarrow> clause \<Rightarrow> bool \<times> store" where
  "gadd st h c =
     (case st h of
        None \<Rightarrow> (False, st)
      | Some i \<Rightarrow>
          if list_all wellformed_literal c
          then (True, st(h \<mapsto> i\<lparr> clauses := clauses i @ [c], assignment := None \<rparr>))
          else (False, st))"

text \<open>
  Modelled from the spec: solve runs the engine over the current clause database,
  returns whether it is satisfiable and fills in the assignment state; failure is
  reported as false. The body of \<open>gsat\<close> is missing from the sources.
\<close>

definition gsat :: "store \<Rightarrow> handle \<Rightarrow> bool \<times> store" where
  "gsat st h =
     (case st h of
        None \<Rightarrow> (False, st)
      | Some i \<Rightarrow>
          (case search (clauses i) of
             None \<Rightarrow> (False, st(h \<mapsto> i\<lparr> assignment := None \<rparr>))
           | Some a \<Rightarrow> (True, st(h \<mapsto> i\<lparr> assignment := Some a \<rparr>))))"

text \<open>
  Modelled from the spec: how a search under a bound can end. It found a satisfying
  assignment, it proved that there is none, or it was abandoned at the bound with no
  proof either way.
\<close>

datatype search_end = Found_satisfying "nat list" | Proved_unsatisfiable | Timed_out

text \<open>
  Modelled from the spec: the bounded search is the same search, abandoned at the
  bound. The engine is missing from the sources, and how far it gets in a given time is
  not a matter of the program text, so the bound is counted here in candidate
  assignments tried: the search runs over the first \<open>n\<close> candidates. It has proved
  unsatisfiability only when these were all the candidates there are.
\<close>

definition bounded_search :: "nat \<Rightarrow> clause list \<Rightarrow> search_end" where
  "bounded_search n cs =
     (case find (\<lambda>a. satisfies a cs) (take n (subseqs (variables_of cs))) of
        Some a \<Rightarrow> Found_satisfying a
      | None \<Rightarrow>
          if length (subseqs (variables_of cs)) \<le> n then Proved_unsatisfiable
          else Timed_out)"

text \<open>
  Modelled from the spec: solve\_with\_timeout is solve with the search abandoned after
  the given number of seconds; its result is the same boolean, so an unsatisfiable
  database and an abandoned search are both reported as false. The body of
  \<open>gsat_time\<close> is missing from the sources. The parameter \<open>within\<close> says how many
  candidates the engine tries in a given number of seconds.
\<close>

definition gsat_time :: "(32 word \<Rightarrow> nat) \<Rightarrow> store \<Rightarrow> handle \<Rightarrow> 32 word \<Rightarrow> bool \<times> store" where
  "gsat_time within st h seconds =
     (case st h of
        None \<Rightarrow> (False, st)
      | Some i \<Rightarrow>
          (case bounded_search (within seconds) (clauses i) of
             Found_satisfying a \<Rightarrow> (True, st(h \<mapsto> i\<lparr> assignment := Some a \<rparr>))
           | Proved_unsatisfiable \<Rightarrow> (False, st(h \<mapsto> i\<lparr> assignment := None \<rparr>))
           | Timed_out \<Rightarrow> (False, st(h \<mapsto> i\<lparr> assignment := None \<rparr>))))"



text \<open>
  Modelled from the spec: a sequence of add\_clause calls on one handle, one call per
  clause, in order, whatever each call returns.
\<close>

definition add_clauses :: "store \<Rightarrow> handle \<Rightarrow> clause list \<Rightarrow> store" where
  "add_clauses st h cs = foldl (\<lambda>s c. snd (gadd s h c)) st cs"

text \<open>
  Modelled from the spec: the two example scenarios of the specification, each on a
  fresh instance of an empty table whose allocator hands out handle 1. The first adds
  \<open>x1 \<or> x2\<close> and \<open>\<not> x1\<close>; the second adds \<open>x1\<close> and \<open>\<not> x1\<close>.
\<close>

definition satisfiable_example :: store where
  "satisfiable_example = add_clauses (snd (ginit (\<lambda>_. 1) Map.empty)) 1 [[1, 2], [- 1]]"

definition contradiction_example :: store where
  "contradiction_example = add_clauses (snd (ginit (\<lambda>_. 1) Map.empty)) 1 [[1], [- 1]]"


section \<open>What the header declares\<close>

subsection \<open>The comments agree with the prototypes\<close>

lemma signatures_match:
  "map jni_signature glucp_JPGlucose = map descriptor_of glucp_JPGlucose"
  by (simp add: glucp_JPGlucose_def decl_defs descriptor_of_def arguments_def)

lemma symbols_match:
  "map symbol glucp_JPGlucose = map symbol_of glucp_JPGlucose"
  by (simp add: glucp_JPGlucose_def decl_defs symbol_of_def)

subsection \<open>The entry points\<close>

text \<open>
  C1. The header declares exactly five entry points: \<open>ginit\<close> (initialise a solver
  instance), \<open>gadd\<close> (add a clause), \<open>gsat\<close> (solve, no time bound), \<open>gsat_time\<close>
  (solve within a time bound) and \<open>gderef\<close> (query an assigned value). These five
  are all of it: there is no sixth declaration, so none that destroys or resets an
  instance or cancels a search. The five linker names are the ones in the file, and no
  name is declared twice.
\<close>

theorem five_entry_points:
  "map jni_method glucp_JPGlucose = [''ginit'', ''gadd'', ''gsat'', ''gsat_time'', ''gderef'']
   \<and> map symbol glucp_JPGlucose =
       [''Java_glucp_JPGlucose_ginit'', ''Java_glucp_JPGlucose_gadd'',
        ''Java_glucp_JPGlucose_gsat'', ''Java_glucp_JPGlucose_gsat_1time'',
        ''Java_glucp_JPGlucose_gderef'']
   \<and> length glucp_JPGlucose = 5
   \<and> distinct (map jni_method glucp_JPGlucose)
   \<and> set (map jni_class glucp_JPGlucose) = {''glucp_JPGlucose''}"
  by (simp add: glucp_JPGlucose_def decl_defs)

text \<open>
  C5. \<open>ginit\<close> has the two call-context parameters and no argument of its own, and
  its result is a bare \<open>jlong\<close>, a 64-bit integer: the prototype has no second
  output, no argument through which an error could be handed back, and no result type
  with a case for failure. Its descriptor \<^verbatim>\<open>()J\<close> says the same.
\<close>

theorem ginit_returns_bare_handle:
  "params Java_glucp_JPGlucose_ginit = [JNIEnv_ptr, jclass]
   \<and> call_context Java_glucp_JPGlucose_ginit = params Java_glucp_JPGlucose_ginit
   \<and> arguments Java_glucp_JPGlucose_ginit = []
   \<and> return_type Java_glucp_JPGlucose_ginit = jlong
   \<and> carries (return_type Java_glucp_JPGlucose_ginit) = Signed_integer 64
   \<and> jni_signature Java_glucp_JPGlucose_ginit = ''()J''
   \<and> descriptor_of Java_glucp_JPGlucose_ginit = ''()J''"
  by (simp add: decl_defs arguments_def call_context_def descriptor_of_def)

text \<open>
  C8. Every entry point has the same two call-context parameters. After them, each
  entry point but \<open>ginit\<close> has the 64-bit handle as its first argument; \<open>ginit\<close>
  has no argument, and is the only entry point with no handle among its arguments.
\<close>

theorem handle_is_first_argument:
  "map call_context glucp_JPGlucose = replicate 5 [JNIEnv_ptr, jclass]
   \<and> map (take 1 \<circ> arguments) glucp_JPGlucose = [[], [jlong], [jlong], [jlong], [jlong]]
   \<and> carries jlong = Signed_integer 64
   \<and> arguments Java_glucp_JPGlucose_ginit = []
   \<and> filter (\<lambda>d. jlong \<notin> set (arguments d)) glucp_JPGlucose = [Java_glucp_JPGlucose_ginit]"
  by (simp add: glucp_JPGlucose_def decl_defs arguments_def call_context_def
      numeral_eq_Suc)

text \<open>
  C9. All five are static bindings: the second call-context parameter is \<open>jclass\<close>
  each time, never \<open>jobject\<close>, and no parameter of any entry point is an object
  reference. What the entry points take beyond the call context is the handle, one
  array of integers and one integer, so the only thing that can name a solver across
  the boundary is the 64-bit handle.
\<close>

theorem all_bindings_static:
  "map is_static glucp_JPGlucose = replicate 5 True
   \<and> map is_instance glucp_JPGlucose = replicate 5 False
   \<and> map (\<lambda>d. params d ! 1) glucp_JPGlucose = replicate 5 jclass
   \<and> filter (\<lambda>d. jobject \<in> set (params d)) glucp_JPGlucose = []
   \<and> map arguments glucp_JPGlucose
       = [[], [jlong, jintArray], [jlong], [jlong, jint], [jlong, jint]]
   \<and> filter (\<lambda>t. carries t = Signed_integer 64) (concat (map arguments glucp_JPGlucose))
       = replicate 4 jlong"
  by (simp add: glucp_JPGlucose_def decl_defs arguments_def call_context_def
      is_static_def is_instance_def numeral_eq_Suc)

text \<open>
  C10. \<open>ginit\<close> is the only entry point whose result is a \<open>jlong\<close>. The other four
  return a boolean or a 32-bit integer, and each of them has the handle among its
  arguments: they take handles in and give none out.
\<close>

theorem handles_come_from_ginit:
  "filter (\<lambda>d. return_type d = jlong) glucp_JPGlucose = [Java_glucp_JPGlucose_ginit]
   \<and> map return_type glucp_JPGlucose = [jlong, jboolean, jboolean, jboolean, jint]
   \<and> map (carries \<circ> return_type) glucp_JPGlucose
       = [Signed_integer 64, Boolean, Boolean, Boolean, Signed_integer 32]
   \<and> map (\<lambda>d. jlong \<in> set (arguments d)) glucp_JPGlucose = [False, True, True, True, True]"
  by (simp add: glucp_JPGlucose_def decl_defs arguments_def)

section \<open>Properties of the modelled solver\<close>

subsection \<open>Literals and the engine\<close>

lemmas model_defs = search_def variables_of_def variable_def satisfies_def holds_def
  wellformed_literal_def




lemma variable_in_variables_of:
  "l \<in> set c \<Longrightarrow> c \<in> set cs \<Longrightarrow> variable l \<in> set (variables_of cs)"
  by (auto simp add: variables_of_def)

lemma search_sound: "search cs = Some a \<Longrightarrow> satisfies a cs"
  by (auto simp add: search_def find_Some_iff)


subsection \<open>Solving\<close>




lemma filter_in_subseqs: "filter P xs \<in> set (subseqs xs)"
  by (induction xs) (auto simp add: Let_def)

lemma holds_restrict:
  assumes "variable l \<in> set vs"
  shows "holds (filter (\<lambda>v. v \<in> set a) vs) l = holds a l"
  using assms by (simp add: holds_def)

lemma satisfies_restrict:
  "satisfies (filter (\<lambda>v. v \<in> set a) (variables_of cs)) cs = satisfies a cs"
proof -
  have "holds (filter (\<lambda>v. v \<in> set a) (variables_of cs)) l = holds a l"
    if "l \<in> set c" and "c \<in> set cs" for l c
    using that by (simp add: holds_restrict variable_in_variables_of)
  then show ?thesis
    by (auto simp add: satisfies_def list_all_iff list_ex_iff)
qed

lemma search_complete: "search cs = None \<Longrightarrow> \<not> satisfies a cs"
proof
  assume none: "search cs = None" and sat: "satisfies a cs"
  let ?a = "filter (\<lambda>v. v \<in> set a) (variables_of cs)"
  from sat have "satisfies ?a cs"
    by (simp add: satisfies_restrict)
  moreover have "?a \<in> set (subseqs (variables_of cs))"
    by (rule filter_in_subseqs)
  ultimately show False
    using none by (auto simp add: search_def find_None_iff)
qed

lemma search_iff_satisfiable: "(search cs \<noteq> None) = (\<exists>a. satisfies a cs)"
  using search_sound search_complete by (cases "search cs") auto

lemma add_clauses_Cons:
  "add_clauses st h (c # cs) = add_clauses (snd (gadd st h c)) h cs"
  by (simp add: add_clauses_def)

lemma clauses_after_add:
  "st h = Some i \<Longrightarrow>
   map_option clauses (add_clauses st h cs h)
     = Some (clauses i @ filter (list_all wellformed_literal) cs)"
proof (induction cs arbitrary: st i)
  case Nil
  then show ?case by (simp add: add_clauses_def)
next
  case (Cons c cs)
  show ?case
  proof (cases "list_all wellformed_literal c")
    case True
    with Cons.prems have "snd (gadd st h c) h
        = Some (i\<lparr> clauses := clauses i @ [c], assignment := None \<rparr>)"
      by (simp add: gadd_def)
    with Cons.IH [of "snd (gadd st h c)"] True show ?thesis
      by (simp add: add_clauses_Cons)
  next
    case False
    with Cons.prems have "snd (gadd st h c) h = Some i"
      by (simp add: gadd_def)
    with Cons.IH [of "snd (gadd st h c)"] False show ?thesis
      by (simp add: add_clauses_Cons)
  qed
qed


lemma ginit_fresh:
  "ginit alloc st = (h, s) \<Longrightarrow> s h = Some \<lparr> clauses = [], assignment = None \<rparr>"
  by (auto simp add: ginit_def)

lemma gsat_status: "st h = Some i \<Longrightarrow> fst (gsat st h) = (search (clauses i) \<noteq> None)"
  by (simp add: gsat_def split: option.splits)

lemma solve_after_fresh:
  assumes "ginit alloc st = (h, s)"
  shows "fst (gsat (add_clauses s h cs) h)
           = (search (filter (list_all wellformed_literal) cs) \<noteq> None)"
proof -
  from ginit_fresh [OF assms] clauses_after_add [of s h _ cs] obtain j
    where "add_clauses s h cs h = Some j"
      and "clauses j = filter (list_all wellformed_literal) cs"
    by auto
  then show ?thesis by (simp add: gsat_status)
qed




lemma gadd_status: "fst (gadd st h c) = (st h \<noteq> None \<and> list_all wellformed_literal c)"
  by (simp add: gadd_def split: option.splits)

lemma gadd_rejected_unchanged: "\<not> fst (gadd st h c) \<Longrightarrow> snd (gadd st h c) = st"
  by (simp add: gadd_def split: option.splits if_splits)

lemma gadd_accepted_appends:
  "fst (gadd st h c) \<Longrightarrow>
   map_option clauses (snd (gadd st h c) h) = map_option (\<lambda>i. clauses i @ [c]) (st h)"
  by (simp add: gadd_def split: option.splits if_splits)

lemma gsat_keeps_clauses:
  "map_option clauses (snd (gsat st h) h) = map_option clauses (st h)"
  by (simp add: gsat_def split: option.splits)


subsection \<open>Solving under a bound\<close>

lemma gsat_time_status:
  "st h = Some i \<Longrightarrow>
   fst (gsat_time within st h seconds)
     = (\<exists>a. bounded_search (within seconds) (clauses i) = Found_satisfying a)"
  by (simp add: gsat_time_def split: search_end.splits)

lemma bounded_search_found_sound:
  assumes "bounded_search n cs = Found_satisfying a"
  shows "satisfies a cs"
proof -
  from assms have "find (\<lambda>a. satisfies a cs) (take n (subseqs (variables_of cs))) = Some a"
    by (simp add: bounded_search_def split: option.splits if_splits)
  then show ?thesis
    by (auto simp add: find_Some_iff)
qed

lemma bounded_search_enough:
  assumes "length (subseqs (variables_of cs)) \<le> n"
  shows "bounded_search n cs
           = (case search cs of Some a \<Rightarrow> Found_satisfying a | None \<Rightarrow> Proved_unsatisfiable)"
  using assms by (simp add: bounded_search_def search_def)

lemma gsat_time_enough:
  assumes "st h = Some i" and "length (subseqs (variables_of (clauses i))) \<le> within seconds"
  shows "gsat_time within st h seconds = gsat st h"
  using assms by (simp add: gsat_time_def gsat_def bounded_search_enough split: option.splits)

lemma gsat_time_true_then_gsat_true:
  assumes "st h = Some i" and "fst (gsat_time within st h seconds)"
  shows "fst (gsat st h)"
proof -
  from assms obtain a where "bounded_search (within seconds) (clauses i) = Found_satisfying a"
    by (auto simp add: gsat_time_status)
  then have "satisfies a (clauses i)"
    by (rule bounded_search_found_sound)
  then have "search (clauses i) \<noteq> None"
    using search_complete [of "clauses i" a] by blast
  with assms(1) show ?thesis
    by (simp add: gsat_status)
qed

subsection \<open>The specification's scenarios\<close>

lemma satisfiable_example_eq:
  "satisfiable_example = [1 \<mapsto> \<lparr> clauses = [[1, 2], [- 1]], assignment = None \<rparr>]"
  by (simp add: satisfiable_example_def ginit_def add_clauses_def gadd_def
      wellformed_literal_def variable_def)

lemma contradiction_example_eq:
  "contradiction_example = [1 \<mapsto> \<lparr> clauses = [[1], [- 1]], assignment = None \<rparr>]"
  by (simp add: contradiction_example_def ginit_def add_clauses_def gadd_def
      wellformed_literal_def variable_def)

lemma satisfiable_example_solved:
  "gsat satisfiable_example 1
     = (True, [1 \<mapsto> \<lparr> clauses = [[1, 2], [- 1]], assignment = Some [2] \<rparr>])"
  by (simp add: satisfiable_example_eq gsat_def model_defs)





section \<open>The claims about the solver's behaviour\<close>

text \<open>
  C2. \<open>gsat\<close> and \<open>gsat_time\<close> both return one boolean, and \<open>gsat_time\<close> takes its
  bound as a 32-bit integer after the handle. For every instance and every bound, the
  boolean of \<open>gsat_time\<close> is false when the search proved the database unsatisfiable
  and false when the search was abandoned at the bound, and these are the only two ways
  it is false on a valid handle: the result has no value that tells the two apart.
  \<open>gsat\<close> runs to completion, and is false exactly when there is no satisfying
  assignment.
\<close>

theorem solve_results_are_boolean:
  "return_type Java_glucp_JPGlucose_gsat = jboolean
   \<and> return_type Java_glucp_JPGlucose_gsat_1time = jboolean
   \<and> carries jboolean = Boolean
   \<and> arguments Java_glucp_JPGlucose_gsat = [jlong]
   \<and> arguments Java_glucp_JPGlucose_gsat_1time = [jlong, jint]
   \<and> carries jint = Signed_integer 32
   \<and> (st h = Some i \<longrightarrow> (\<not> fst (gsat st h)) = (search (clauses i) = None))
   \<and> (st h = Some i \<and> bounded_search (within seconds) (clauses i) = Proved_unsatisfiable
        \<longrightarrow> \<not> fst (gsat_time within st h seconds))
   \<and> (st h = Some i \<and> bounded_search (within seconds) (clauses i) = Timed_out
        \<longrightarrow> \<not> fst (gsat_time within st h seconds))
   \<and> (st h = Some i \<and> \<not> fst (gsat_time within st h seconds)
        \<longrightarrow> bounded_search (within seconds) (clauses i) = Proved_unsatisfiable
            \<or> bounded_search (within seconds) (clauses i) = Timed_out)"
proof -
  have "return_type Java_glucp_JPGlucose_gsat = jboolean"
    and "return_type Java_glucp_JPGlucose_gsat_1time = jboolean"
    and "arguments Java_glucp_JPGlucose_gsat = [jlong]"
    and "arguments Java_glucp_JPGlucose_gsat_1time = [jlong, jint]"
    by (simp_all add: decl_defs arguments_def)
  moreover have "(\<not> fst (gsat st h)) = (search (clauses i) = None)" if "st h = Some i"
    using that by (simp add: gsat_status)
  moreover have "\<not> fst (gsat_time within st h seconds)"
    if "st h = Some i" and "bounded_search (within seconds) (clauses i) = Proved_unsatisfiable"
    using that by (simp add: gsat_time_status)
  moreover have "\<not> fst (gsat_time within st h seconds)"
    if "st h = Some i" and "bounded_search (within seconds) (clauses i) = Timed_out"
    using that by (simp add: gsat_time_status)
  moreover have "bounded_search (within seconds) (clauses i) = Proved_unsatisfiable
      \<or> bounded_search (within seconds) (clauses i) = Timed_out"
    if "st h = Some i" and "\<not> fst (gsat_time within st h seconds)"
    using that by (auto simp add: gsat_time_def split: search_end.splits)
  ultimately show ?thesis by simp
qed

theorem solve_results_are_boolean_witness:
  "contradiction_example 1 = Some \<lparr> clauses = [[1], [- 1]], assignment = None \<rparr>
   \<and> search [[1], [- 1]] = None
   \<and> \<not> fst (gsat contradiction_example 1)
   \<and> bounded_search (nat (sint (4 :: 32 word))) [[1], [- 1]] = Proved_unsatisfiable
   \<and> \<not> fst (gsat_time (\<lambda>s. nat (sint s)) contradiction_example 1 4)
   \<and> satisfiable_example 1 = Some \<lparr> clauses = [[1, 2], [- 1]], assignment = None \<rparr>
   \<and> bounded_search (nat (sint (1 :: 32 word))) [[1, 2], [- 1]] = Timed_out
   \<and> \<not> fst (gsat_time (\<lambda>s. nat (sint s)) satisfiable_example 1 1)
   \<and> fst (gsat satisfiable_example 1)"
proof -
  have unsat: "contradiction_example 1 = Some \<lparr> clauses = [[1], [- 1]], assignment = None \<rparr>"
    by (simp add: contradiction_example_eq)
  have none: "search [[1], [- 1]] = None"
    by (simp add: model_defs)
  have proved: "bounded_search (nat (sint (4 :: 32 word))) [[1], [- 1]] = Proved_unsatisfiable"
    by (simp add: bounded_search_def satisfies_def holds_def variables_of_def variable_def
        wellformed_literal_def)
  have sat: "satisfiable_example 1 = Some \<lparr> clauses = [[1, 2], [- 1]], assignment = None \<rparr>"
    by (simp add: satisfiable_example_eq)
  have abandoned: "bounded_search (nat (sint (1 :: 32 word))) [[1, 2], [- 1]] = Timed_out"
    by (simp add: bounded_search_def satisfies_def holds_def variables_of_def variable_def
        wellformed_literal_def)
  have solved: "fst (gsat satisfiable_example 1)"
    by (simp add: satisfiable_example_solved)
  note unsatisfiable_run = solve_results_are_boolean
    [where st = contradiction_example and h = 1
       and i = "\<lparr> clauses = [[1], [- 1]], assignment = None \<rparr>"
       and within = "\<lambda>s. nat (sint s)" and seconds = 4]
  note abandoned_run = solve_results_are_boolean
    [where st = satisfiable_example and h = 1
       and i = "\<lparr> clauses = [[1, 2], [- 1]], assignment = None \<rparr>"
       and within = "\<lambda>s. nat (sint s)" and seconds = 1]
  from unsat none proved sat abandoned solved unsatisfiable_run abandoned_run
  show ?thesis by simp
qed




text \<open>
  C4. Take two fresh instances, created by any two allocators in any two tables, give
  both the same sequence of clauses with \<open>gadd\<close>, and solve: the two calls of \<open>gsat\<close>
  return the same boolean. The outcome depends on the clause sequence alone, not on the
  handle or on what else the table holds.
\<close>

theorem same_clauses_same_outcome:
  assumes "ginit alloc1 st1 = (h1, s1)" and "ginit alloc2 st2 = (h2, s2)"
  shows "fst (gsat (add_clauses s1 h1 cs) h1) = fst (gsat (add_clauses s2 h2 cs) h2)"
  by (simp add: solve_after_fresh [OF assms(1)] solve_after_fresh [OF assms(2)])

theorem same_clauses_same_outcome_witness:
  "ginit (\<lambda>_. 1) Map.empty = (1, snd (ginit (\<lambda>_. 1) Map.empty))
   \<and> ginit (\<lambda>_. 2) contradiction_example = (2, snd (ginit (\<lambda>_. 2) contradiction_example))
   \<and> fst (gsat (add_clauses (snd (ginit (\<lambda>_. 1) Map.empty)) 1 [[1, 2], [- 1]]) 1)
       = fst (gsat (add_clauses (snd (ginit (\<lambda>_. 2) contradiction_example)) 2
                [[1, 2], [- 1]]) 2)
   \<and> fst (gsat (add_clauses (snd (ginit (\<lambda>_. 1) Map.empty)) 1 [[1, 2], [- 1]]) 1)"
proof -
  have one: "ginit (\<lambda>_. 1) Map.empty = (1, snd (ginit (\<lambda>_. 1) Map.empty))"
    by (simp add: ginit_def)
  have two: "ginit (\<lambda>_. 2) contradiction_example
      = (2, snd (ginit (\<lambda>_. 2) contradiction_example))"
    by (simp add: ginit_def)
  have "fst (gsat (add_clauses (snd (ginit (\<lambda>_. 1) Map.empty)) 1 [[1, 2], [- 1]]) 1)"
    using satisfiable_example_solved by (simp add: satisfiable_example_def)
  with one two same_clauses_same_outcome [OF one two, of "[[1, 2], [- 1]]"]
  show ?thesis by simp
qed

text \<open>
  C6. \<open>gadd\<close> takes the handle and one clause, an array of 32-bit signed integers,
  and returns a boolean, the only thing the prototype gives back. The boolean is the
  accepted-or-rejected status: it is true exactly when the handle names an instance and
  the clause is well formed. A rejected call returns false and leaves every instance as
  it was; an accepted call appends the clause to the handle's database. Either way the
  call returns: rejection is a result, not a fault.
\<close>

theorem gadd_takes_clause_returns_status:
  "arguments Java_glucp_JPGlucose_gadd = [jlong, jintArray]
   \<and> map carries (arguments Java_glucp_JPGlucose_gadd)
       = [Signed_integer 64, Sequence_of (Signed_integer 32)]
   \<and> return_type Java_glucp_JPGlucose_gadd = jboolean
   \<and> carries (return_type Java_glucp_JPGlucose_gadd) = Boolean
   \<and> jni_signature Java_glucp_JPGlucose_gadd = ''(J[I)Z''
   \<and> fst (gadd st h c) = (st h \<noteq> None \<and> list_all wellformed_literal c)
   \<and> (\<not> fst (gadd st h c) \<longrightarrow> snd (gadd st h c) = st)
   \<and> (fst (gadd st h c) \<longrightarrow>
        map_option clauses (snd (gadd st h c) h) = map_option (\<lambda>i. clauses i @ [c]) (st h))"
proof -
  have "arguments Java_glucp_JPGlucose_gadd = [jlong, jintArray]"
    and "return_type Java_glucp_JPGlucose_gadd = jboolean"
    and "jni_signature Java_glucp_JPGlucose_gadd = ''(J[I)Z''"
    by (simp_all add: Java_glucp_JPGlucose_gadd_def arguments_def)
  moreover have "snd (gadd st h c) = st" if "\<not> fst (gadd st h c)"
    using that by (rule gadd_rejected_unchanged)
  moreover have "map_option clauses (snd (gadd st h c) h)
      = map_option (\<lambda>i. clauses i @ [c]) (st h)" if "fst (gadd st h c)"
    using that by (rule gadd_accepted_appends)
  ultimately show ?thesis
    by (simp add: gadd_status)
qed

theorem gadd_takes_clause_returns_status_witness:
  "\<not> fst (gadd satisfiable_example 1 [0])
   \<and> snd (gadd satisfiable_example 1 [0]) = satisfiable_example
   \<and> \<not> fst (gadd satisfiable_example 5 [3])
   \<and> snd (gadd satisfiable_example 5 [3]) = satisfiable_example
   \<and> fst (gadd satisfiable_example 1 [3])
   \<and> map_option clauses (snd (gadd satisfiable_example 1 [3]) 1) = Some [[1, 2], [- 1], [3]]"
proof -
  have malformed: "\<not> fst (gadd satisfiable_example 1 [0])"
    by (simp add: gadd_status wellformed_literal_def variable_def)
  have unknown: "\<not> fst (gadd satisfiable_example 5 [3])"
    by (simp add: gadd_status satisfiable_example_eq)
  have accepted: "fst (gadd satisfiable_example 1 [3])"
    by (simp add: gadd_status satisfiable_example_eq wellformed_literal_def variable_def)
  from malformed unknown accepted
    gadd_takes_clause_returns_status [of satisfiable_example 1 "[0]"]
    gadd_takes_clause_returns_status [of satisfiable_example 5 "[3]"]
    gadd_takes_clause_returns_status [of satisfiable_example 1 "[3]"]
  show ?thesis
    by (simp add: satisfiable_example_eq)
qed



end
